theory Spec2Isabelle
  imports Main "HOL-Library.Word"
begin

unbundle bit_operations_syntax

section \<open>Horizon Ramdisk (src/devices/bus/ti99/peb/horizon.cpp)\<close>

subsection \<open>Data model\<close>

text \<open>
  \<open>offs_t\<close> is an unsigned 32-bit integer and \<open>uint8_t\<close> a byte. The member
  \<open>m_page\<close> and the two CRU bases are C++ \<open>int\<close>s; they are modelled as 32-bit
  words, on which \<open>|=\<close>, \<open>&= ~\<close>, \<open><<\<close> and the comparison with an
  \<open>offs_t\<close> act bit by bit as they do on the two's complement \<open>int\<close>. The shift
  \<open>m_page << 11\<close> leaves the range of \<open>int\<close> only for a page of 0x100000 or more;
  from reset on the page register stays below 0x2000, as is proved of the CRU writes below.

  A byte array reached through \<open>pointer()\<close> (the three RAM regions and the transfer
  buffers of the NVRAM functions) is a store from byte index to byte. The regions have the
  sizes of \<open>device_add_mconfig\<close>, which the constants below repeat; the store itself is
  total, and the theorems on index bounds say which indices the code forms.
\<close>

type_synonym offs_t = "32 word"
type_synonym uint8_t = "8 word"
type_synonym bytes = "nat \<Rightarrow> uint8_t"

definition MAXSIZE :: nat where
  "MAXSIZE = 16777216"

definition ROSSIZE :: nat where
  "ROSSIZE = 8192"

definition RAMSIZE :: nat where
  "RAMSIZE = 32768"

record horizon_ramdisk_device =
  m_ram :: bytes
  m_nvram :: bytes
  m_ros :: bytes
  m_page :: "32 word"
  m_cru_horizon :: "32 word"
  m_cru_phoenix :: "32 word"
  m_timode :: bool
  m_32k_installed :: bool
  m_split_mode :: bool
  m_rambo_mode :: bool
  m_hideswitch :: bool
  m_use_rambo :: bool
  m_genmod_fix :: bool
  m_selected :: bool

text \<open>
  The input ports read by \<open>device_reset\<close>. The port HORIZONSIZE is read by
  \<open>cruwrite\<close> and the NVRAM functions at every call; they take its value as their
  first argument.
\<close>

record horizon_ports =
  CRUHOR :: "32 word"
  CRUPHOE :: "32 word"
  HORIZONDUAL :: "32 word"
  HORIZONACT :: "32 word"
  HORIZON32 :: "32 word"
  RAMBO :: "32 word"
  GENMODFIX :: "32 word"

text \<open>A region whose every byte is \<open>v\<close>.\<close>

definition filled :: "uint8_t \<Rightarrow> bytes" where
  "filled v i = v"

text \<open>The constructor (lines 82-100), over the three regions the device finds.\<close>

definition new_device :: "bytes \<Rightarrow> bytes \<Rightarrow> bytes \<Rightarrow> horizon_ramdisk_device" where
  "new_device ram nvram ros =
     \<lparr> m_ram = ram, m_nvram = nvram, m_ros = ros,
       m_page = 0, m_cru_horizon = 0, m_cru_phoenix = 0,
       m_timode = False, m_32k_installed = False, m_split_mode = False,
       m_rambo_mode = False, m_hideswitch = False, m_use_rambo = False,
       m_genmod_fix = False, m_selected = False \<rparr>"

definition device_reset :: "horizon_ports \<Rightarrow> horizon_ramdisk_device \<Rightarrow> horizon_ramdisk_device" where
  "device_reset ports d =
     d\<lparr> m_cru_horizon := CRUHOR ports,
        m_cru_phoenix := CRUPHOE ports,
        m_32k_installed := (HORIZON32 ports \<noteq> 0),
        m_split_mode := (HORIZONDUAL ports \<noteq> 0),
        m_timode := (HORIZONDUAL ports = 1),
        m_rambo_mode := False,
        m_hideswitch := (HORIZONACT ports \<noteq> 0),
        m_use_rambo := (RAMBO ports \<noteq> 0),
        m_genmod_fix := (GENMODFIX ports \<noteq> 0),
        m_page := 0,
        m_selected := False \<rparr>"

definition hs_changed :: "32 word \<Rightarrow> horizon_ramdisk_device \<Rightarrow> horizon_ramdisk_device" where
  "hs_changed newval d = d\<lparr> m_hideswitch := (newval \<noteq> 0) \<rparr>"

subsection \<open>Memory access: readz and write\<close>

text \<open>
  The address decoders \<open>in_dsr_space\<close> and \<open>in_cart_space\<close> belong to the peribox
  card interface, which is not part of this source; both functions take them as their
  first two arguments. \<open>readz\<close> is a member function with the out-parameter
  \<open>*value\<close>: the model takes the device and the old \<open>*value\<close> and returns both
  after the call. The member function \<open>write\<close> is \<open>write_byte\<close> here, since
  \<open>write\<close> is a keyword of Isar. The log calls write no device state and are left out.
\<close>

definition readz ::
  "(offs_t \<Rightarrow> bool \<Rightarrow> bool) \<Rightarrow> (offs_t \<Rightarrow> bool \<Rightarrow> bool) \<Rightarrow>
   horizon_ramdisk_device \<Rightarrow> offs_t \<Rightarrow> uint8_t \<Rightarrow> horizon_ramdisk_device \<times> uint8_t" where
  "readz in_dsr_space in_cart_space d offset value =
     (let window = drop_bit 13 (offset AND 0xe000) in
      if m_32k_installed d \<and> window = 1 then
        (d, m_ram d (unat (offset AND 0x1fff)))
      else if m_32k_installed d \<and> window = 5 then
        (d, m_ram d (unat ((offset AND 0x1fff) OR 0x2000)))
      else if m_32k_installed d \<and> window = 6 then
        (d, m_ram d (unat ((offset AND 0x1fff) OR 0x4000)))
      else if m_32k_installed d \<and> window = 7 then
        (d, m_ram d (unat ((offset AND 0x1fff) OR 0x6000)))
      else if m_hideswitch d then (d, value)
      else if \<not> m_selected d \<and> \<not> m_rambo_mode d then (d, value)
      else if \<not> m_rambo_mode d then
        (if in_dsr_space offset (m_genmod_fix d) then
           (if offset AND 0x1800 = 0x1800 then
              (d, m_nvram d (unat (push_bit 11 (m_page d) OR (offset AND 0x07ff))))
            else
              (d, m_ros d (unat (offset AND 0x1fff))))
         else (d, value))
      else
        (let value1 =
               (if in_dsr_space offset (m_genmod_fix d)
                then m_ros d (unat (offset AND 0x1fff)) else value);
             value2 =
               (if in_cart_space offset (m_genmod_fix d)
                then m_nvram d (unat (push_bit 11 (m_page d AND 0xfffc) OR (offset AND 0x1fff)))
                else value1)
         in (d, value2)))"

definition write_byte ::
  "(offs_t \<Rightarrow> bool \<Rightarrow> bool) \<Rightarrow> (offs_t \<Rightarrow> bool \<Rightarrow> bool) \<Rightarrow>
   horizon_ramdisk_device \<Rightarrow> offs_t \<Rightarrow> uint8_t \<Rightarrow> horizon_ramdisk_device" where
  "write_byte in_dsr_space in_cart_space d offset data =
     (let window = drop_bit 13 (offset AND 0xe000) in
      if m_32k_installed d \<and> window = 1 then
        d\<lparr> m_ram := (m_ram d)(unat (offset AND 0x1fff) := data) \<rparr>
      else if m_32k_installed d \<and> window = 5 then
        d\<lparr> m_ram := (m_ram d)(unat ((offset AND 0x1fff) OR 0x2000) := data) \<rparr>
      else if m_32k_installed d \<and> window = 6 then
        d\<lparr> m_ram := (m_ram d)(unat ((offset AND 0x1fff) OR 0x4000) := data) \<rparr>
      else if m_32k_installed d \<and> window = 7 then
        d\<lparr> m_ram := (m_ram d)(unat ((offset AND 0x1fff) OR 0x6000) := data) \<rparr>
      else if m_hideswitch d then d
      else if \<not> m_selected d \<and> \<not> m_rambo_mode d then d
      else if \<not> m_rambo_mode d then
        (if in_dsr_space offset (m_genmod_fix d) then
           (if offset AND 0x1800 = 0x1800 then
              d\<lparr> m_nvram := (m_nvram d)
                    (unat (push_bit 11 (m_page d) OR (offset AND 0x07ff)) := data) \<rparr>
            else
              d\<lparr> m_ros := (m_ros d)(unat (offset AND 0x1fff) := data) \<rparr>)
         else d)
      else
        (let d1 =
               (if in_dsr_space offset (m_genmod_fix d)
                then d\<lparr> m_ros := (m_ros d)(unat (offset AND 0x1fff) := data) \<rparr> else d);
             d2 =
               (if in_cart_space offset (m_genmod_fix d1)
                then d1\<lparr> m_nvram := (m_nvram d1)
                       (unat (push_bit 11 (m_page d1 AND 0xfffc) OR (offset AND 0x1fff)) := data) \<rparr>
                else d1)
         in d2))"

text \<open>
  An access is served by the 32K expansion when the expansion is installed and the switch
  over \<open>(offset & 0xe000) >> 13\<close> takes one of its four returning cases
  (lines 164-183 and 230-249).
\<close>

definition served_by_32k :: "horizon_ramdisk_device \<Rightarrow> offs_t \<Rightarrow> bool" where
  "served_by_32k d offset =
     (m_32k_installed d \<and>
      (drop_bit 13 (offset AND 0xe000) = 1 \<or> drop_bit 13 (offset AND 0xe000) = 5 \<or>
       drop_bit 13 (offset AND 0xe000) = 6 \<or> drop_bit 13 (offset AND 0xe000) = 7))"

text \<open>
  Decoders to run the access functions on: the address areas the header comment of
  horizon.cpp names, 4000-5fff for the DSR and 6000-7fff for the cartridge space. They
  stand in for the absent ones only where a theorem is instantiated at a concrete access.
\<close>

definition dsr_4000 :: "offs_t \<Rightarrow> bool \<Rightarrow> bool" where
  "dsr_4000 offset amadec = (offset AND 0xe000 = 0x4000)"

definition cart_6000 :: "offs_t \<Rightarrow> bool \<Rightarrow> bool" where
  "cart_6000 offset amadec = (offset AND 0xe000 = 0x6000)"

text \<open>There is no CRU read operation for the Horizon: the body is a bare return.\<close>

definition crureadz ::
  "horizon_ramdisk_device \<Rightarrow> offs_t \<Rightarrow> uint8_t \<Rightarrow> horizon_ramdisk_device \<times> uint8_t" where
  "crureadz d offset value = (d, value)"

subsection \<open>CRU writes and the page register\<close>

definition setbit :: "32 word \<Rightarrow> 32 word \<Rightarrow> bool \<Rightarrow> 32 word" where
  "setbit page pattern on = (if on then page OR pattern else page AND NOT pattern)"

text \<open>The CRU bit number of an access (line 318).\<close>

definition cru_bit :: "offs_t \<Rightarrow> nat" where
  "cru_bit offset = unat ((drop_bit 1 offset) AND 0x0f)"

text \<open>The switch over the bit number (lines 320-359).\<close>

definition cruwrite_switch ::
  "nat \<Rightarrow> nat \<Rightarrow> uint8_t \<Rightarrow> horizon_ramdisk_device \<Rightarrow> horizon_ramdisk_device" where
  "cruwrite_switch hsize b data d =
     (let split_bit = hsize + 10 in
      if b = 0 then d\<lparr> m_selected := (data \<noteq> 0) \<rparr>
      else if b = 1 then
        (if \<not> m_rambo_mode d then d\<lparr> m_page := setbit (m_page d) 0x0002 (data \<noteq> 0) \<rparr> else d)
      else if b = 2 then
        (if \<not> m_rambo_mode d then d\<lparr> m_page := setbit (m_page d) 0x0001 (data \<noteq> 0) \<rparr> else d)
      else if 3 \<le> b \<and> b \<le> 9 then
        d\<lparr> m_page := setbit (m_page d) (push_bit (b - 1) 0x0001) (data \<noteq> 0) \<rparr>
      else if b = 14 then d
      else if b = 15 then
        (if m_use_rambo d then d\<lparr> m_rambo_mode := (data \<noteq> 0) \<rparr> else d)
      else
        (if b \<noteq> split_bit \<or> \<not> m_split_mode d then
           (if b \<le> split_bit
            then d\<lparr> m_page := setbit (m_page d) (push_bit (b - 10) 0x0200) (data \<noteq> 0) \<rparr>
            else d)
         else d))"

text \<open>The selection of the drive in split mode (lines 361-374).\<close>

definition cruwrite_split ::
  "nat \<Rightarrow> offs_t \<Rightarrow> nat \<Rightarrow> horizon_ramdisk_device \<Rightarrow> horizon_ramdisk_device" where
  "cruwrite_split hsize offset b d =
     (let splitpagebit = push_bit hsize (0x0200 :: 32 word) in
      if m_split_mode d then
        (if m_timode d then
           d\<lparr> m_page := setbit (m_page d) splitpagebit (offset AND 0xff00 = m_cru_phoenix d) \<rparr>
         else
           d\<lparr> m_page := setbit (m_page d) splitpagebit (7 < b) \<rparr>)
      else d)"

definition cruwrite ::
  "nat \<Rightarrow> horizon_ramdisk_device \<Rightarrow> offs_t \<Rightarrow> uint8_t \<Rightarrow> horizon_ramdisk_device" where
  "cruwrite hsize d offset data =
     (if offset AND 0xff00 = m_cru_horizon d \<or> offset AND 0xff00 = m_cru_phoenix d then
        cruwrite_split hsize offset (cru_bit offset) (cruwrite_switch hsize (cru_bit offset) data d)
      else d)"

text \<open>A sequence of CRU writes, each with the size setting read at its call.\<close>

fun cruwrites ::
  "(nat \<times> offs_t \<times> uint8_t) list \<Rightarrow> horizon_ramdisk_device \<Rightarrow> horizon_ramdisk_device" where
  "cruwrites [] d = d"
| "cruwrites ((hsize, offset, data) # calls) d = cruwrites calls (cruwrite hsize d offset data)"

subsection \<open>NVRAM persistence\<close>

text \<open>
  \<open>memset\<close> and \<open>memcpy\<close> on stores: \<open>memcpy dst doff src soff n\<close> is
  \<open>memcpy(dst + doff, src + soff, n)\<close>. Source and destination are different arrays at
  each call of the source.
\<close>

definition memset :: "bytes \<Rightarrow> uint8_t \<Rightarrow> nat \<Rightarrow> bytes" where
  "memset dst v n = (\<lambda>i. if i < n then v else dst i)"

definition memcpy :: "bytes \<Rightarrow> nat \<Rightarrow> bytes \<Rightarrow> nat \<Rightarrow> nat \<Rightarrow> bytes" where
  "memcpy dst doff src soff n =
     (\<lambda>i. if doff \<le> i \<and> i < doff + n then src (soff + (i - doff)) else dst i)"

text \<open>
  The class \<open>emu_file\<close> is not part of this source. A file is the list of its bytes:
  \<open>file_read\<close> fills the start of the buffer with at most \<open>n\<close> bytes of the file and
  returns the number of bytes read; \<open>file_write\<close> gives the file that holds the first
  \<open>n\<close> bytes of the buffer.
\<close>

definition file_read :: "uint8_t list \<Rightarrow> bytes \<Rightarrow> nat \<Rightarrow> nat \<times> bytes" where
  "file_read file buffer n =
     (min (length file) n, (\<lambda>i. if i < min (length file) n then file ! i else buffer i))"

definition file_write :: "bytes \<Rightarrow> nat \<Rightarrow> uint8_t list" where
  "file_write buffer n = map buffer [0..<n]"

definition nvram_size :: "nat \<Rightarrow> nat" where
  "nvram_size hsize = 2097152 * 2 ^ hsize"

definition nvram_default :: "nat \<Rightarrow> horizon_ramdisk_device \<Rightarrow> horizon_ramdisk_device" where
  "nvram_default hsize d =
     d\<lparr> m_nvram := memset (m_nvram d) 0 (nvram_size hsize),
        m_ros := memset (m_ros d) 0 ROSSIZE \<rparr>"

definition nvram_read ::
  "nat \<Rightarrow> uint8_t list \<Rightarrow> horizon_ramdisk_device \<Rightarrow> horizon_ramdisk_device" where
  "nvram_read hsize file d =
     (let nvram0 = memset (m_nvram d) 0 (nvram_size hsize);
          ros0 = memset (m_ros d) 0 ROSSIZE;
          (filesize, buffer) = file_read file (filled 0) (MAXSIZE + ROSSIZE);
          nvramsize = int filesize - int ROSSIZE
      in if 0 \<le> nvramsize then
           d\<lparr> m_nvram := memcpy nvram0 0 buffer 0 (nat nvramsize),
              m_ros := memcpy ros0 0 buffer (nat nvramsize) ROSSIZE \<rparr>
         else
           d\<lparr> m_nvram := nvram0, m_ros := ros0 \<rparr>)"

definition nvram_write :: "nat \<Rightarrow> horizon_ramdisk_device \<Rightarrow> uint8_t list" where
  "nvram_write hsize d =
     (let nvramsize = nvram_size hsize;
          buffer0 = filled 0;
          buffer1 = memcpy buffer0 0 (m_nvram d) 0 nvramsize;
          buffer2 = memcpy buffer1 nvramsize (m_ros d) 0 ROSSIZE
      in file_write buffer2 (nvramsize + ROSSIZE))"

section \<open>Qume QVT-103 (src/mame/drivers/qvt103.cpp)\<close>

text \<open>
  The bitmap is a store of 32-bit pixels by coordinates and the clip rectangle a record of
  its four bounds; the screen device is left abstract. \<open>screen_update\<close> takes the
  bitmap by reference, so the model returns it with the result.
\<close>

type_synonym bitmap_rgb32 = "int \<times> int \<Rightarrow> 32 word"

record rectangle =
  min_x :: int
  max_x :: int
  min_y :: int
  max_y :: int

definition screen_update :: "'screen \<Rightarrow> bitmap_rgb32 \<Rightarrow> rectangle \<Rightarrow> 32 word \<times> bitmap_rgb32" where
  "screen_update screen bitmap cliprect = (0, bitmap)"

section \<open>Auxiliary facts\<close>

subsection \<open>Words below a power of two\<close>

lemma below_iff_take_bit:
  "(w :: 32 word) < 2 ^ n \<longleftrightarrow> (n < 32 \<and> take_bit n w = w)" if "n < 32"
  using that mask_eq_iff_w2p [of n w] by (simp add: take_bit_eq_mask word_size)

lemma page_below_iff: "(w :: 32 word) < 0x2000 \<longleftrightarrow> take_bit 13 w = w"
  using below_iff_take_bit [of 13 w] by simp

lemma take_bit_and_left: "take_bit n x = x \<Longrightarrow> take_bit n (x AND y) = x AND y"
  for x y :: "32 word"
  by (metis take_bit_eq_mask and.assoc and.commute)

lemma take_bit_setbit:
  "take_bit n page = page \<Longrightarrow> take_bit n pattern = pattern \<Longrightarrow>
   take_bit n (setbit page pattern on) = setbit page pattern on"
  by (cases on) (simp_all only: setbit_def if_True if_False take_bit_or take_bit_and_left)

lemma unat_take_bit_less: "take_bit n w = w \<Longrightarrow> unat w < 2 ^ n" for w :: "32 word"
  by (metis unsigned_take_bit_eq take_bit_nat_less_exp)

subsection \<open>The 8K windows of the address\<close>

lemma window_take:
  "drop_bit 13 (offset AND 0xe000 :: 32 word) = take_bit 3 (drop_bit 13 offset)"
proof -
  have "drop_bit 13 (offset AND 0xe000) = drop_bit 13 offset AND 7" by simp
  moreover have "(7 :: 32 word) = mask 3" by (simp add: mask_eq_exp_minus_1)
  ultimately show ?thesis
    by (simp only: take_bit_eq_mask)
qed

lemma window_unat:
  "unat (drop_bit 13 (offset AND 0xe000 :: 32 word)) = (unat offset div 8192) mod 8"
  unfolding window_take
  by (simp add: take_bit_eq_mod drop_bit_eq_div unat_div unat_mod)

lemma window_2000:
  assumes "0x2000 \<le> offset" "offset \<le> (0x3fff :: 32 word)"
  shows "drop_bit 13 (offset AND 0xe000) = 1"
proof -
  have "8192 \<le> unat offset" "unat offset \<le> 16383"
    using assms by (simp_all add: word_le_nat_alt)
  then have "unat offset div 8192 = 1" by simp
  then have "unat (drop_bit 13 (offset AND 0xe000)) = unat (1 :: 32 word)"
    unfolding window_unat by simp
  then show ?thesis by (simp only: word_unat_eq_iff)
qed

lemma window_a000:
  assumes "0xa000 \<le> offset" "offset \<le> (0xbfff :: 32 word)"
  shows "drop_bit 13 (offset AND 0xe000) = 5"
proof -
  have "40960 \<le> unat offset" "unat offset \<le> 49151"
    using assms by (simp_all add: word_le_nat_alt)
  then have "unat offset div 8192 = 5" by simp
  then have "unat (drop_bit 13 (offset AND 0xe000)) = unat (5 :: 32 word)"
    unfolding window_unat by simp
  then show ?thesis by (simp only: word_unat_eq_iff)
qed

lemma window_c000:
  assumes "0xc000 \<le> offset" "offset \<le> (0xdfff :: 32 word)"
  shows "drop_bit 13 (offset AND 0xe000) = 6"
proof -
  have "49152 \<le> unat offset" "unat offset \<le> 57343"
    using assms by (simp_all add: word_le_nat_alt)
  then have "unat offset div 8192 = 6" by simp
  then have "unat (drop_bit 13 (offset AND 0xe000)) = unat (6 :: 32 word)"
    unfolding window_unat by simp
  then show ?thesis by (simp only: word_unat_eq_iff)
qed

lemma window_e000:
  assumes "0xe000 \<le> offset" "offset \<le> (0xffff :: 32 word)"
  shows "drop_bit 13 (offset AND 0xe000) = 7"
proof -
  have "57344 \<le> unat offset" "unat offset \<le> 65535"
    using assms by (simp_all add: word_le_nat_alt)
  then have "unat offset div 8192 = 7" by simp
  then have "unat (drop_bit 13 (offset AND 0xe000)) = unat (7 :: 32 word)"
    unfolding window_unat by simp
  then show ?thesis by (simp only: word_unat_eq_iff)
qed

lemma ram_index_bound:
  assumes "base = 0 \<or> base = 0x2000 \<or> base = 0x4000 \<or> base = 0x6000"
  shows "unat ((offset AND 0x1fff) OR base :: 32 word) < RAMSIZE"
proof -
  have m: "(0x1fff :: 32 word) = mask 13" by (simp add: mask_eq_exp_minus_1)
  have b: "take_bit 15 base = base" using assms by auto
  have "take_bit 15 (take_bit 13 offset OR base) = take_bit 13 offset OR base"
    by (simp add: b)
  then have "unat (take_bit 13 offset OR base) < 2 ^ 15"
    by (rule unat_take_bit_less)
  then show ?thesis
    by (simp only: m take_bit_eq_mask RAMSIZE_def) simp
qed

lemma readz_32k:
  assumes "m_32k_installed d" and "drop_bit 13 (offset AND 0xe000) = w"
  shows "w = 1 \<Longrightarrow> readz in_dsr_space in_cart_space d offset value
            = (d, m_ram d (unat (offset AND 0x1fff)))"
    and "w = 5 \<Longrightarrow> readz in_dsr_space in_cart_space d offset value
            = (d, m_ram d (unat ((offset AND 0x1fff) OR 0x2000)))"
    and "w = 6 \<Longrightarrow> readz in_dsr_space in_cart_space d offset value
            = (d, m_ram d (unat ((offset AND 0x1fff) OR 0x4000)))"
    and "w = 7 \<Longrightarrow> readz in_dsr_space in_cart_space d offset value
            = (d, m_ram d (unat ((offset AND 0x1fff) OR 0x6000)))"
  using assms by (simp_all add: readz_def Let_def)

lemma write_32k:
  assumes "m_32k_installed d" and "drop_bit 13 (offset AND 0xe000) = w"
  shows "w = 1 \<Longrightarrow> write_byte in_dsr_space in_cart_space d offset data
            = d\<lparr> m_ram := (m_ram d)(unat (offset AND 0x1fff) := data) \<rparr>"
    and "w = 5 \<Longrightarrow> write_byte in_dsr_space in_cart_space d offset data
            = d\<lparr> m_ram := (m_ram d)(unat ((offset AND 0x1fff) OR 0x2000) := data) \<rparr>"
    and "w = 6 \<Longrightarrow> write_byte in_dsr_space in_cart_space d offset data
            = d\<lparr> m_ram := (m_ram d)(unat ((offset AND 0x1fff) OR 0x4000) := data) \<rparr>"
    and "w = 7 \<Longrightarrow> write_byte in_dsr_space in_cart_space d offset data
            = d\<lparr> m_ram := (m_ram d)(unat ((offset AND 0x1fff) OR 0x6000) := data) \<rparr>"
  using assms by (simp_all add: write_byte_def Let_def)

subsection \<open>NVRAM indices\<close>

lemma horizon_index_bound:
  assumes "take_bit 13 page = page"
  shows "unat (push_bit 11 page OR (offset AND 0x07ff) :: 32 word) < 16777216"
proof -
  have m: "(0x07ff :: 32 word) = mask 11" by (simp add: mask_eq_exp_minus_1)
  have "take_bit 24 (push_bit 11 page OR take_bit 11 offset)
      = push_bit 11 page OR take_bit 11 offset"
    using assms by (simp add: take_bit_push_bit)
  then have "unat (push_bit 11 page OR take_bit 11 offset) < 2 ^ 24"
    by (rule unat_take_bit_less)
  then show ?thesis
    by (simp only: m take_bit_eq_mask) simp
qed

lemma rambo_index_bound:
  assumes "take_bit 13 page = page"
  shows "unat (push_bit 11 (page AND 0xfffc) OR (offset AND 0x1fff) :: 32 word) < 16777216"
proof -
  have m: "(0x1fff :: 32 word) = mask 13" by (simp add: mask_eq_exp_minus_1)
  have p: "take_bit 13 (page AND 0xfffc) = page AND 0xfffc"
    using assms by (rule take_bit_and_left)
  have "take_bit 24 (push_bit 11 (page AND 0xfffc)) = push_bit 11 (page AND 0xfffc)"
    using p by (simp only: take_bit_push_bit) simp
  then have "take_bit 24 (push_bit 11 (page AND 0xfffc) OR take_bit 13 offset)
      = push_bit 11 (page AND 0xfffc) OR take_bit 13 offset"
    by (simp only: take_bit_or take_bit_take_bit) simp
  then have "unat (push_bit 11 (page AND 0xfffc) OR take_bit 13 offset) < 2 ^ 24"
    by (rule unat_take_bit_less)
  then show ?thesis
    by (simp only: m take_bit_eq_mask) simp
qed

subsection \<open>The parts of a CRU write\<close>

lemma cru_bit_le: "cru_bit offset \<le> 15"
proof -
  have "drop_bit 1 offset AND 0x0f \<le> (0x0f :: 32 word)" by (rule word_and_le1)
  then show ?thesis by (simp add: cru_bit_def word_le_nat_alt)
qed

lemma cruwrite_switch_frame:
  "m_split_mode (cruwrite_switch hsize b data d) = m_split_mode d"
  "m_timode (cruwrite_switch hsize b data d) = m_timode d"
  "m_cru_phoenix (cruwrite_switch hsize b data d) = m_cru_phoenix d"
  by (simp_all add: cruwrite_switch_def Let_def)

lemma cruwrite_split_frame:
  "m_selected (cruwrite_split hsize offset b d) = m_selected d"
  "m_rambo_mode (cruwrite_split hsize offset b d) = m_rambo_mode d"
  by (simp_all add: cruwrite_split_def Let_def)

lemma cruwrite_split_page_only:
  "m_split_mode d1 = m_split_mode d2 \<Longrightarrow> m_timode d1 = m_timode d2 \<Longrightarrow>
   m_cru_phoenix d1 = m_cru_phoenix d2 \<Longrightarrow> m_page d1 = m_page d2 \<Longrightarrow>
   m_page (cruwrite_split hsize offset b d1) = m_page (cruwrite_split hsize offset b d2)"
  by (simp add: cruwrite_split_def Let_def)

lemma split_pattern_nonzero:
  assumes "hsize \<le> 3"
  shows "push_bit hsize (0x0200 :: 32 word) \<noteq> 0"
proof -
  from assms consider "hsize = 0" | "hsize = 1" | "hsize = 2" | "hsize = 3" by linarith
  then show ?thesis by cases simp_all
qed

lemma setbit_test:
  "pattern \<noteq> 0 \<Longrightarrow> (setbit page pattern on AND pattern \<noteq> 0) = on"
  by (cases on) (simp_all add: setbit_def and.assoc word_ao_dist)

lemma cruwrite_split_test:
  assumes "hsize \<le> 3" and "m_split_mode d"
  shows "(m_page (cruwrite_split hsize offset b d) AND push_bit hsize 0x0200 \<noteq> 0) =
         (if m_timode d then offset AND 0xff00 = m_cru_phoenix d else 7 < b)"
  using assms(2) setbit_test [OF split_pattern_nonzero [OF assms(1)]]
  by (simp add: cruwrite_split_def Let_def)

lemma take_bit_low_pattern:
  assumes "3 \<le> b" "b \<le> 9"
  shows "take_bit 13 (push_bit (b - 1) (0x0001 :: 32 word)) = push_bit (b - 1) 0x0001"
proof -
  from assms consider "b = 3" | "b = 4" | "b = 5" | "b = 6" | "b = 7" | "b = 8" | "b = 9"
    by linarith
  then show ?thesis by cases simp_all
qed

lemma take_bit_high_pattern:
  assumes "k \<le> 3"
  shows "take_bit 13 (push_bit k (0x0200 :: 32 word)) = push_bit k 0x0200"
proof -
  from assms consider "k = 0" | "k = 1" | "k = 2" | "k = 3" by linarith
  then show ?thesis by cases simp_all
qed

lemma cruwrite_switch_page:
  assumes "take_bit 13 (m_page d) = m_page d" and "b \<le> 15"
  shows "take_bit 13 (m_page (cruwrite_switch hsize b data d))
       = m_page (cruwrite_switch hsize b data d)"
proof -
  have low: "take_bit 13 (setbit (m_page d) (push_bit (b - 1) 0x0001) (data \<noteq> 0))
      = setbit (m_page d) (push_bit (b - 1) 0x0001) (data \<noteq> 0)" if "3 \<le> b" "b \<le> 9"
    using assms(1) take_bit_low_pattern [OF that] by (rule take_bit_setbit)
  have high: "take_bit 13 (setbit (m_page d) (push_bit (b - 10) 0x0200) (data \<noteq> 0))
      = setbit (m_page d) (push_bit (b - 10) 0x0200) (data \<noteq> 0)" if "b \<noteq> 14" "b \<noteq> 15"
  proof -
    from that assms(2) have "b - 10 \<le> 3" by linarith
    then have "take_bit 13 (push_bit (b - 10) (0x0200 :: 32 word)) = push_bit (b - 10) 0x0200"
      by (rule take_bit_high_pattern)
    with assms(1) show ?thesis by (rule take_bit_setbit)
  qed
  have two: "take_bit 13 (setbit (m_page d) 0x0002 (data \<noteq> 0))
      = setbit (m_page d) 0x0002 (data \<noteq> 0)"
    using assms(1) by (rule take_bit_setbit) simp
  have one: "take_bit 13 (setbit (m_page d) 0x0001 (data \<noteq> 0))
      = setbit (m_page d) 0x0001 (data \<noteq> 0)"
    using assms(1) by (rule take_bit_setbit) simp
  show ?thesis
    using assms(1) low high two one
    by (simp add: cruwrite_switch_def Let_def del: take_bit_or take_bit_and)
qed

lemma cruwrite_split_page:
  assumes "take_bit 13 (m_page d) = m_page d" and "hsize \<le> 3"
  shows "take_bit 13 (m_page (cruwrite_split hsize offset b d))
       = m_page (cruwrite_split hsize offset b d)"
  using take_bit_setbit [OF assms(1) take_bit_high_pattern [OF assms(2)]] assms(1)
  by (simp add: cruwrite_split_def Let_def)

lemma cruwrite_page:
  assumes "m_page d < 0x2000" and "hsize \<le> 3"
  shows "m_page (cruwrite hsize d offset data) < 0x2000"
  using assms cruwrite_split_page [OF cruwrite_switch_page [OF _ cru_bit_le]]
  by (simp add: cruwrite_def page_below_iff)

subsection \<open>The NVRAM file\<close>

lemma nvram_write_layout:
  "nvram_write hsize d = map (m_nvram d) [0..<nvram_size hsize] @ map (m_ros d) [0..<ROSSIZE]"
proof (rule nth_equalityI)
  show "length (nvram_write hsize d)
      = length (map (m_nvram d) [0..<nvram_size hsize] @ map (m_ros d) [0..<ROSSIZE])"
    by (simp add: nvram_write_def file_write_def Let_def)
next
  fix i
  assume "i < length (nvram_write hsize d)"
  then have i: "i < nvram_size hsize + ROSSIZE"
    by (simp add: nvram_write_def file_write_def Let_def)
  show "nvram_write hsize d ! i
      = (map (m_nvram d) [0..<nvram_size hsize] @ map (m_ros d) [0..<ROSSIZE]) ! i"
  proof (cases "i < nvram_size hsize")
    case True
    then show ?thesis
      using i by (simp add: nvram_write_def file_write_def Let_def memcpy_def nth_append)
  next
    case False
    then show ?thesis
      using i by (simp add: nvram_write_def file_write_def Let_def memcpy_def nth_append)
  qed
qed

lemma nvram_write_length: "length (nvram_write hsize d) = nvram_size hsize + ROSSIZE"
  by (simp add: nvram_write_layout)

lemma nvram_write_nth_nvram:
  "i < nvram_size hsize \<Longrightarrow> nvram_write hsize d ! i = m_nvram d i"
  by (simp add: nvram_write_layout nth_append)

lemma nvram_write_nth_ros:
  "j < ROSSIZE \<Longrightarrow> nvram_write hsize d ! (nvram_size hsize + j) = m_ros d j"
  by (simp add: nvram_write_layout nth_append)

lemma nvram_read_long:
  assumes "ROSSIZE \<le> length file" and "length file \<le> MAXSIZE + ROSSIZE"
  shows "m_nvram (nvram_read hsize file d) =
           (\<lambda>i. if i < length file - ROSSIZE then file ! i
                else if i < nvram_size hsize then 0 else m_nvram d i)"
    and "m_ros (nvram_read hsize file d) =
           (\<lambda>j. if j < ROSSIZE then file ! (length file - ROSSIZE + j) else m_ros d j)"
  using assms
  by (auto simp add: nvram_read_def file_read_def Let_def memcpy_def memset_def filled_def
      min_def fun_eq_iff nat_diff_distrib)

lemma nvram_read_short:
  assumes "length file < ROSSIZE"
  shows "m_nvram (nvram_read hsize file d) = memset (m_nvram d) 0 (nvram_size hsize)"
    and "m_ros (nvram_read hsize file d) = memset (m_ros d) 0 ROSSIZE"
  using assms
  by (simp_all add: nvram_read_def file_read_def Let_def min_def)

lemma nvram_size_le: "hsize \<le> 3 \<Longrightarrow> nvram_size hsize \<le> MAXSIZE"
proof -
  assume "hsize \<le> 3"
  then have "(2::nat) ^ hsize \<le> 2 ^ 3" by (rule power_increasing) simp
  then show ?thesis by (simp add: nvram_size_def MAXSIZE_def)
qed

lemma file_read_take: "file_read (take n file) buffer n = file_read file buffer n"
  by (auto simp add: file_read_def fun_eq_iff)

subsection \<open>The page register over a run of CRU writes\<close>

lemma cruwrites_page:
  "list_all (\<lambda>c. fst c \<le> 3) calls \<Longrightarrow> m_page d < 0x2000 \<Longrightarrow>
   m_page (cruwrites calls d) < 0x2000"
proof (induction calls arbitrary: d)
  case Nil
  then show ?case by simp
next
  case (Cons c calls)
  obtain hsize offset data where c: "c = (hsize, offset, data)" by (cases c)
  from Cons.prems(1) c have "hsize \<le> 3" and rest: "list_all (\<lambda>c. fst c \<le> 3) calls"
    by simp_all
  with Cons.prems(2) have "m_page (cruwrite hsize d offset data) < 0x2000"
    by (simp add: cruwrite_page)
  with rest show ?case
    unfolding c by (simp add: Cons.IH)
qed

lemma sint_page:
  assumes "(w :: 32 word) < 0x2000"
  shows "0 \<le> sint w \<and> sint w < 0x2000"
proof -
  have u: "uint w < 0x2000" using assms by (simp add: word_less_def)
  have "sint w = signed_take_bit 31 (uint w)" by (simp add: sint_uint)
  also have "\<dots> = uint w"
  proof (rule signed_take_bit_int_eq_self)
    show "- (2 ^ 31) \<le> uint w"
      using order_trans [of "- (2 ^ 31)" 0 "uint w"] by simp
    show "uint w < 2 ^ 31" using u by simp
  qed
  finally show ?thesis using u by simp
qed

section \<open>Memory access of the Horizon Ramdisk\<close>

text \<open>
  C1. In Horizon page mode (\<open>m_rambo_mode\<close> false), for an offset in DSR space, with the
  card selected, the hideswitch off and the access not served by the 32K expansion,
  \<open>readz\<close> returns the NVRAM byte at index \<open>(m_page << 11) | (offset & 0x07ff)\<close> when
  \<open>(offset & 0x1800) == 0x1800\<close> and the ROS byte at index \<open>offset & 0x1fff\<close>
  otherwise, and \<open>write\<close> stores the data byte at the same place.
\<close>

theorem horizon_page_mode_access:
  assumes "\<not> m_rambo_mode d" and "m_selected d" and "\<not> m_hideswitch d"
    and "in_dsr_space offset (m_genmod_fix d)"
    and "\<not> served_by_32k d offset"
  shows "readz in_dsr_space in_cart_space d offset value =
           (d, if offset AND 0x1800 = 0x1800
               then m_nvram d (unat (push_bit 11 (m_page d) OR (offset AND 0x07ff)))
               else m_ros d (unat (offset AND 0x1fff)))
       \<and> write_byte in_dsr_space in_cart_space d offset data =
           (if offset AND 0x1800 = 0x1800
            then d\<lparr> m_nvram := (m_nvram d)
                     (unat (push_bit 11 (m_page d) OR (offset AND 0x07ff)) := data) \<rparr>
            else d\<lparr> m_ros := (m_ros d)(unat (offset AND 0x1fff) := data) \<rparr>)"
  using assms
  by (cases "m_32k_installed d")
    (simp_all add: readz_def write_byte_def Let_def served_by_32k_def)

text \<open>
  With page 5 selected, a read of 5803 returns the NVRAM byte at index 0x2803, and a write
  to 4803 lands in the ROS at index 0x803.
\<close>

theorem horizon_page_mode_access_witness:
  "readz dsr_4000 cart_6000
     ((new_device (filled 1) ((filled 2)(10243 := 0x42)) (filled 3))
        \<lparr> m_page := 5, m_selected := True \<rparr>)
     0x5803 0
   = ((new_device (filled 1) ((filled 2)(10243 := 0x42)) (filled 3))
        \<lparr> m_page := 5, m_selected := True \<rparr>, 0x42)
   \<and> write_byte dsr_4000 cart_6000
     ((new_device (filled 1) (filled 2) (filled 3))\<lparr> m_page := 5, m_selected := True \<rparr>)
     0x4803 7
   = (new_device (filled 1) (filled 2) (filled 3))
       \<lparr> m_page := 5, m_selected := True, m_ros := (filled 3)(2051 := 7) \<rparr>"
  using horizon_page_mode_access
    [of "(new_device (filled 1) ((filled 2)(10243 := 0x42)) (filled 3))
           \<lparr> m_page := 5, m_selected := True \<rparr>"
        dsr_4000 "0x5803" cart_6000 0 7]
    horizon_page_mode_access
    [of "(new_device (filled 1) (filled 2) (filled 3))\<lparr> m_page := 5, m_selected := True \<rparr>"
        dsr_4000 "0x4803" cart_6000 0 7]
  by (simp add: new_device_def dsr_4000_def served_by_32k_def)

text \<open>
  C2. In RAMBO block mode (\<open>m_rambo_mode\<close> true), with the hideswitch off and the access
  not served by the 32K expansion, \<open>readz\<close> returns the ROS byte at index
  \<open>offset & 0x1fff\<close> for an offset in DSR space and the NVRAM byte at index
  \<open>((m_page & 0xfffc) << 11) | (offset & 0x1fff)\<close> for an offset in cartridge space,
  and \<open>write\<close> stores at the same place; \<open>m_selected\<close> is not among the hypotheses,
  so this holds whether or not the card is selected. The two decoders are parameters here;
  DSR space and cartridge space are taken to be disjoint, as the two address areas are.
\<close>

theorem rambo_mode_access:
  assumes "m_rambo_mode d" and "\<not> m_hideswitch d" and "\<not> served_by_32k d offset"
    and "\<not> (in_dsr_space offset (m_genmod_fix d) \<and> in_cart_space offset (m_genmod_fix d))"
  shows "readz in_dsr_space in_cart_space d offset value =
           (d, if in_dsr_space offset (m_genmod_fix d)
               then m_ros d (unat (offset AND 0x1fff))
               else if in_cart_space offset (m_genmod_fix d)
               then m_nvram d (unat (push_bit 11 (m_page d AND 0xfffc) OR (offset AND 0x1fff)))
               else value)
       \<and> write_byte in_dsr_space in_cart_space d offset data =
           (if in_dsr_space offset (m_genmod_fix d)
            then d\<lparr> m_ros := (m_ros d)(unat (offset AND 0x1fff) := data) \<rparr>
            else if in_cart_space offset (m_genmod_fix d)
            then d\<lparr> m_nvram := (m_nvram d)
                     (unat (push_bit 11 (m_page d AND 0xfffc) OR (offset AND 0x1fff)) := data) \<rparr>
            else d)"
  using assms
  by (cases "m_32k_installed d")
    (auto simp add: readz_def write_byte_def Let_def served_by_32k_def)

text \<open>
  With page register 7 the RAMBO page starts at Horizon page 4, so 6123 is NVRAM index
  0x2123; the card is not selected.
\<close>

theorem rambo_mode_access_witness:
  "readz dsr_4000 cart_6000
     ((new_device (filled 1) ((filled 2)(8483 := 0x42)) (filled 3))
        \<lparr> m_page := 7, m_rambo_mode := True \<rparr>)
     0x6123 0
   = ((new_device (filled 1) ((filled 2)(8483 := 0x42)) (filled 3))
        \<lparr> m_page := 7, m_rambo_mode := True \<rparr>, 0x42)
   \<and> write_byte dsr_4000 cart_6000
     ((new_device (filled 1) (filled 2) (filled 3))\<lparr> m_page := 7, m_rambo_mode := True \<rparr>)
     0x6123 9
   = (new_device (filled 1) (filled 2) (filled 3))
       \<lparr> m_page := 7, m_rambo_mode := True, m_nvram := (filled 2)(8483 := 9) \<rparr>"
  using rambo_mode_access
    [of "(new_device (filled 1) ((filled 2)(8483 := 0x42)) (filled 3))
           \<lparr> m_page := 7, m_rambo_mode := True \<rparr>"
        "0x6123" dsr_4000 cart_6000 0 9]
    rambo_mode_access
    [of "(new_device (filled 1) (filled 2) (filled 3))\<lparr> m_page := 7, m_rambo_mode := True \<rparr>"
        "0x6123" dsr_4000 cart_6000 0 9]
  by (simp add: new_device_def dsr_4000_def cart_6000_def served_by_32k_def)

text \<open>
  C9. With the 32 KiB expansion installed, an access in one of the windows 2000-3fff,
  a000-bfff, c000-dfff and e000-ffff reads or writes the 32K RAM region, at an index below
  32768, and returns: whatever the hideswitch, the card-selected flag and the RAMBO mode
  are (none of them is a hypothesis), \<open>readz\<close> returns the device as it was and
  \<open>write\<close> changes \<open>m_ram\<close> alone, so NVRAM and ROS are not touched.
\<close>

theorem expansion_32k_bypass:
  assumes "m_32k_installed d"
  shows "(0x2000 \<le> offset \<and> offset \<le> 0x3fff \<longrightarrow>
            readz in_dsr_space in_cart_space d offset value
              = (d, m_ram d (unat (offset AND 0x1fff)))
          \<and> write_byte in_dsr_space in_cart_space d offset data
              = d\<lparr> m_ram := (m_ram d)(unat (offset AND 0x1fff) := data) \<rparr>
          \<and> unat (offset AND 0x1fff) < RAMSIZE)
       \<and> (0xa000 \<le> offset \<and> offset \<le> 0xbfff \<longrightarrow>
            readz in_dsr_space in_cart_space d offset value
              = (d, m_ram d (unat ((offset AND 0x1fff) OR 0x2000)))
          \<and> write_byte in_dsr_space in_cart_space d offset data
              = d\<lparr> m_ram := (m_ram d)(unat ((offset AND 0x1fff) OR 0x2000) := data) \<rparr>
          \<and> unat ((offset AND 0x1fff) OR 0x2000) < RAMSIZE)
       \<and> (0xc000 \<le> offset \<and> offset \<le> 0xdfff \<longrightarrow>
            readz in_dsr_space in_cart_space d offset value
              = (d, m_ram d (unat ((offset AND 0x1fff) OR 0x4000)))
          \<and> write_byte in_dsr_space in_cart_space d offset data
              = d\<lparr> m_ram := (m_ram d)(unat ((offset AND 0x1fff) OR 0x4000) := data) \<rparr>
          \<and> unat ((offset AND 0x1fff) OR 0x4000) < RAMSIZE)
       \<and> (0xe000 \<le> offset \<and> offset \<le> 0xffff \<longrightarrow>
            readz in_dsr_space in_cart_space d offset value
              = (d, m_ram d (unat ((offset AND 0x1fff) OR 0x6000)))
          \<and> write_byte in_dsr_space in_cart_space d offset data
              = d\<lparr> m_ram := (m_ram d)(unat ((offset AND 0x1fff) OR 0x6000) := data) \<rparr>
          \<and> unat ((offset AND 0x1fff) OR 0x6000) < RAMSIZE)"
proof (intro conjI impI)
  assume "0x2000 \<le> offset \<and> offset \<le> 0x3fff"
  then have w: "drop_bit 13 (offset AND 0xe000) = 1"
    by (simp add: window_2000 del: drop_bit_and)
  show "readz in_dsr_space in_cart_space d offset value = (d, m_ram d (unat (offset AND 0x1fff)))"
    by (rule readz_32k(1) [OF assms w refl])
  show "write_byte in_dsr_space in_cart_space d offset data
      = d\<lparr> m_ram := (m_ram d)(unat (offset AND 0x1fff) := data) \<rparr>"
    by (rule write_32k(1) [OF assms w refl])
  show "unat (offset AND 0x1fff) < RAMSIZE"
    using ram_index_bound [of 0 offset] by simp
next
  assume "0xa000 \<le> offset \<and> offset \<le> 0xbfff"
  then have w: "drop_bit 13 (offset AND 0xe000) = 5"
    by (simp add: window_a000 del: drop_bit_and)
  show "readz in_dsr_space in_cart_space d offset value
      = (d, m_ram d (unat ((offset AND 0x1fff) OR 0x2000)))"
    by (rule readz_32k(2) [OF assms w refl])
  show "write_byte in_dsr_space in_cart_space d offset data
      = d\<lparr> m_ram := (m_ram d)(unat ((offset AND 0x1fff) OR 0x2000) := data) \<rparr>"
    by (rule write_32k(2) [OF assms w refl])
  show "unat ((offset AND 0x1fff) OR 0x2000) < RAMSIZE"
    by (rule ram_index_bound) simp
next
  assume "0xc000 \<le> offset \<and> offset \<le> 0xdfff"
  then have w: "drop_bit 13 (offset AND 0xe000) = 6"
    by (simp add: window_c000 del: drop_bit_and)
  show "readz in_dsr_space in_cart_space d offset value
      = (d, m_ram d (unat ((offset AND 0x1fff) OR 0x4000)))"
    by (rule readz_32k(3) [OF assms w refl])
  show "write_byte in_dsr_space in_cart_space d offset data
      = d\<lparr> m_ram := (m_ram d)(unat ((offset AND 0x1fff) OR 0x4000) := data) \<rparr>"
    by (rule write_32k(3) [OF assms w refl])
  show "unat ((offset AND 0x1fff) OR 0x4000) < RAMSIZE"
    by (rule ram_index_bound) simp
next
  assume "0xe000 \<le> offset \<and> offset \<le> 0xffff"
  then have w: "drop_bit 13 (offset AND 0xe000) = 7"
    by (simp add: window_e000 del: drop_bit_and)
  show "readz in_dsr_space in_cart_space d offset value
      = (d, m_ram d (unat ((offset AND 0x1fff) OR 0x6000)))"
    by (rule readz_32k(4) [OF assms w refl])
  show "write_byte in_dsr_space in_cart_space d offset data
      = d\<lparr> m_ram := (m_ram d)(unat ((offset AND 0x1fff) OR 0x6000) := data) \<rparr>"
    by (rule write_32k(4) [OF assms w refl])
  show "unat ((offset AND 0x1fff) OR 0x6000) < RAMSIZE"
    by (rule ram_index_bound) simp
qed

text \<open>
  A hidden, unselected card in RAMBO mode still serves a123 from the expansion RAM, at
  index 0x2123.
\<close>

theorem expansion_32k_bypass_witness:
  "readz dsr_4000 cart_6000
     ((new_device ((filled 1)(8483 := 0x42)) (filled 2) (filled 3))
        \<lparr> m_32k_installed := True, m_rambo_mode := True, m_hideswitch := True \<rparr>)
     0xa123 0
   = ((new_device ((filled 1)(8483 := 0x42)) (filled 2) (filled 3))
        \<lparr> m_32k_installed := True, m_rambo_mode := True, m_hideswitch := True \<rparr>, 0x42)
   \<and> write_byte dsr_4000 cart_6000
     ((new_device (filled 1) (filled 2) (filled 3))
        \<lparr> m_32k_installed := True, m_rambo_mode := True, m_hideswitch := True \<rparr>)
     0xa123 9
   = (new_device (filled 1) (filled 2) (filled 3))
        \<lparr> m_32k_installed := True, m_rambo_mode := True, m_hideswitch := True,
          m_ram := (filled 1)(8483 := 9) \<rparr>"
  using expansion_32k_bypass
    [of "(new_device ((filled 1)(8483 := 0x42)) (filled 2) (filled 3))
        \<lparr> m_32k_installed := True, m_rambo_mode := True, m_hideswitch := True \<rparr>"
        "0xa123" dsr_4000 cart_6000 0 9]
    expansion_32k_bypass
    [of "(new_device (filled 1) (filled 2) (filled 3))
        \<lparr> m_32k_installed := True, m_rambo_mode := True, m_hideswitch := True \<rparr>"
        "0xa123" dsr_4000 cart_6000 0 9]
  by (simp add: new_device_def)

text \<open>
  C10. \<open>crureadz\<close> leaves \<open>*value\<close> and the device as they were; \<open>readz\<close>
  returns the device as it was (page register, mode flags, selection and the three memory
  regions), for every offset and state; and with the hideswitch on and the access not
  served by the 32K expansion, \<open>readz\<close> leaves \<open>*value\<close> as it was too.
\<close>

theorem crureadz_and_readz_pure:
  "crureadz d offset value = (d, value)
   \<and> fst (readz in_dsr_space in_cart_space d offset' value') = d
   \<and> (m_hideswitch d \<and> \<not> served_by_32k d offset' \<longrightarrow>
        snd (readz in_dsr_space in_cart_space d offset' value') = value')"
  by (cases "m_32k_installed d")
    (simp_all add: crureadz_def readz_def Let_def served_by_32k_def)

text \<open>A selected card with the hideswitch on, read at 4000 over a \<open>*value\<close> of 0x55.\<close>

theorem crureadz_and_readz_pure_witness:
  "crureadz ((new_device (filled 1) (filled 2) (filled 3))
               \<lparr> m_hideswitch := True, m_selected := True \<rparr>) 0x1200 0x55
   = ((new_device (filled 1) (filled 2) (filled 3))
               \<lparr> m_hideswitch := True, m_selected := True \<rparr>, 0x55)
   \<and> readz dsr_4000 cart_6000 ((new_device (filled 1) (filled 2) (filled 3))
               \<lparr> m_hideswitch := True, m_selected := True \<rparr>) 0x4000 0x55
   = ((new_device (filled 1) (filled 2) (filled 3))
               \<lparr> m_hideswitch := True, m_selected := True \<rparr>, 0x55)"
  using crureadz_and_readz_pure
    [of "(new_device (filled 1) (filled 2) (filled 3))
               \<lparr> m_hideswitch := True, m_selected := True \<rparr>" "0x1200" "0x55"
        dsr_4000 cart_6000 "0x4000" "0x55"]
  by (simp add: served_by_32k_def new_device_def prod_eq_iff)

section \<open>CRU writes\<close>

text \<open>
  C3, as the code has it. A CRU write whose offset matches neither the Horizon nor the
  Phoenix CRU base changes nothing. For one whose offset matches, with
  \<open>bit = (offset >> 1) & 0x0f\<close>: bit 0 sets \<open>m_selected\<close> to
  \<open>data != 0\<close>; bits 1 and 2, when not in RAMBO mode, set or clear page bits 0x0002 and
  0x0001; bits 3 to 9 set or clear page bit \<open>0x0001 << (bit - 1)\<close>; bits 10 to 13 set
  or clear page bit \<open>0x0200 << (bit - 10)\<close> unless the bit is the split bit
  \<open>size + 10\<close> while split mode is on, or exceeds the split bit; every other case
  leaves the page to the drive selection of split mode, which runs last on the page so
  formed. Bit 15 sets \<open>m_rambo_mode\<close> to \<open>data != 0\<close>, and only when RAMBO is
  configured: it does not invert the flag. \<open>readz\<close>, \<open>write\<close> and the change of the
  hideswitch never change the page register.
\<close>

theorem cru_bits_drive_page:
  "(if offset AND 0xff00 = m_cru_horizon d \<or> offset AND 0xff00 = m_cru_phoenix d
    then
      cru_bit offset \<le> 15
      \<and> m_selected (cruwrite hsize d offset data) =
          (if cru_bit offset = 0 then data \<noteq> 0 else m_selected d)
      \<and> m_page (cruwrite hsize d offset data) =
          m_page (cruwrite_split hsize offset (cru_bit offset)
            (d\<lparr> m_page :=
               if cru_bit offset = 1 \<and> \<not> m_rambo_mode d
                 then setbit (m_page d) 0x0002 (data \<noteq> 0)
               else if cru_bit offset = 2 \<and> \<not> m_rambo_mode d
                 then setbit (m_page d) 0x0001 (data \<noteq> 0)
               else if 3 \<le> cru_bit offset \<and> cru_bit offset \<le> 9
                 then setbit (m_page d) (push_bit (cru_bit offset - 1) 0x0001) (data \<noteq> 0)
               else if 10 \<le> cru_bit offset \<and> cru_bit offset \<le> 13
                   \<and> \<not> (cru_bit offset = hsize + 10 \<and> m_split_mode d)
                   \<and> \<not> hsize + 10 < cru_bit offset
                 then setbit (m_page d) (push_bit (cru_bit offset - 10) 0x0200) (data \<noteq> 0)
               else m_page d \<rparr>))
      \<and> m_rambo_mode (cruwrite hsize d offset data) =
          (if cru_bit offset = 15 \<and> m_use_rambo d then data \<noteq> 0 else m_rambo_mode d)
    else cruwrite hsize d offset data = d)
   \<and> m_page (write_byte in_dsr_space in_cart_space d offset' data') = m_page d
   \<and> m_page (fst (readz in_dsr_space in_cart_space d offset' value)) = m_page d
   \<and> m_page (hs_changed newval d) = m_page d"
proof -
  let ?b = "cru_bit offset"
  let ?match = "offset AND 0xff00 = m_cru_horizon d \<or> offset AND 0xff00 = m_cru_phoenix d"
  have b: "?b \<le> 15" by (rule cru_bit_le)
  have eq: "cruwrite hsize d offset data =
      cruwrite_split hsize offset ?b (cruwrite_switch hsize ?b data d)" if ?match
    using that by (simp add: cruwrite_def)
  have sel: "m_selected (cruwrite hsize d offset data) =
        (if ?b = 0 then data \<noteq> 0 else m_selected d)" if ?match
    unfolding eq [OF that] cruwrite_split_frame by (simp add: cruwrite_switch_def Let_def)
  have rambo: "m_rambo_mode (cruwrite hsize d offset data) =
        (if ?b = 15 \<and> m_use_rambo d then data \<noteq> 0 else m_rambo_mode d)" if ?match
    unfolding eq [OF that] cruwrite_split_frame by (simp add: cruwrite_switch_def Let_def)
  have page: "m_page (cruwrite hsize d offset data) =
        m_page (cruwrite_split hsize offset ?b
          (d\<lparr> m_page :=
             if ?b = 1 \<and> \<not> m_rambo_mode d then setbit (m_page d) 0x0002 (data \<noteq> 0)
             else if ?b = 2 \<and> \<not> m_rambo_mode d then setbit (m_page d) 0x0001 (data \<noteq> 0)
             else if 3 \<le> ?b \<and> ?b \<le> 9
               then setbit (m_page d) (push_bit (?b - 1) 0x0001) (data \<noteq> 0)
             else if 10 \<le> ?b \<and> ?b \<le> 13
                 \<and> \<not> (?b = hsize + 10 \<and> m_split_mode d)
                 \<and> \<not> hsize + 10 < ?b
               then setbit (m_page d) (push_bit (?b - 10) 0x0200) (data \<noteq> 0)
             else m_page d \<rparr>))" if ?match
    unfolding eq [OF that]
  proof (rule cruwrite_split_page_only)
    show "m_page (cruwrite_switch hsize ?b data d) = m_page (d\<lparr> m_page :=
             if ?b = 1 \<and> \<not> m_rambo_mode d then setbit (m_page d) 0x0002 (data \<noteq> 0)
             else if ?b = 2 \<and> \<not> m_rambo_mode d then setbit (m_page d) 0x0001 (data \<noteq> 0)
             else if 3 \<le> ?b \<and> ?b \<le> 9
               then setbit (m_page d) (push_bit (?b - 1) 0x0001) (data \<noteq> 0)
             else if 10 \<le> ?b \<and> ?b \<le> 13
                 \<and> \<not> (?b = hsize + 10 \<and> m_split_mode d)
                 \<and> \<not> hsize + 10 < ?b
               then setbit (m_page d) (push_bit (?b - 10) 0x0200) (data \<noteq> 0)
             else m_page d \<rparr>)"
      using b by (auto simp add: cruwrite_switch_def Let_def)
  qed (simp_all add: cruwrite_switch_frame)
  have other: "cruwrite hsize d offset data = d" if "\<not> ?match"
    using that by (simp add: cruwrite_def)
  have wr: "m_page (write_byte in_dsr_space in_cart_space d offset' data') = m_page d"
    by (simp add: write_byte_def Let_def)
  have rd: "m_page (fst (readz in_dsr_space in_cart_space d offset' value)) = m_page d"
    by (simp add: readz_def Let_def)
  have hs: "m_page (hs_changed newval d) = m_page d"
    by (simp add: hs_changed_def)
  show ?thesis
  proof (cases ?match)
    case True
    from b sel [OF True] page [OF True] rambo [OF True] wr rd hs True
    show ?thesis by (simp only: if_True)
  next
    case False
    from other [OF False] wr rd hs False
    show ?thesis by (simp only: if_False)
  qed
qed

text \<open>
  On a 4 MiB card at CRU base 1200: bit 4 sets page bit 0x0008, bit 11 sets page bit
  0x0400, bit 12 lies above the split bit and sets nothing, and bit 15 switches RAMBO on.
\<close>

theorem cru_bits_drive_page_witness:
  "m_page (cruwrite 1
      ((new_device (filled 0) (filled 0) (filled 0))
         \<lparr> m_cru_horizon := 0x1200, m_use_rambo := True \<rparr>) 0x1208 1) = 0x0008
   \<and> m_page (cruwrite 1
      ((new_device (filled 0) (filled 0) (filled 0))
         \<lparr> m_cru_horizon := 0x1200, m_use_rambo := True \<rparr>) 0x1216 1) = 0x0400
   \<and> m_page (cruwrite 1
      ((new_device (filled 0) (filled 0) (filled 0))
         \<lparr> m_cru_horizon := 0x1200, m_use_rambo := True \<rparr>) 0x1218 1) = 0
   \<and> m_rambo_mode (cruwrite 1
      ((new_device (filled 0) (filled 0) (filled 0))
         \<lparr> m_cru_horizon := 0x1200, m_use_rambo := True \<rparr>) 0x121e 1)"
  using cru_bits_drive_page
    [of "0x1208" "(new_device (filled 0) (filled 0) (filled 0))
         \<lparr> m_cru_horizon := 0x1200, m_use_rambo := True \<rparr>" 1 1]
    cru_bits_drive_page
    [of "0x1216" "(new_device (filled 0) (filled 0) (filled 0))
         \<lparr> m_cru_horizon := 0x1200, m_use_rambo := True \<rparr>" 1 1]
    cru_bits_drive_page
    [of "0x1218" "(new_device (filled 0) (filled 0) (filled 0))
         \<lparr> m_cru_horizon := 0x1200, m_use_rambo := True \<rparr>" 1 1]
    cru_bits_drive_page
    [of "0x121e" "(new_device (filled 0) (filled 0) (filled 0))
         \<lparr> m_cru_horizon := 0x1200, m_use_rambo := True \<rparr>" 1 1]
  by (simp add: new_device_def cru_bit_def cruwrite_split_def setbit_def)

text \<open>
  C3 as stated has bit 15 toggle \<open>m_rambo_mode\<close>. After a reset with RAMBO configured,
  writing 1 to bit 15 (offset 121e at CRU base 1200) switches RAMBO mode on, and writing 1
  to it a second time leaves it on; a toggle would have switched it off again.
\<close>

theorem rambo_bit_counterexample:
  "m_rambo_mode (cruwrites [(0, 0x121e, 1)]
      (device_reset \<lparr> CRUHOR = 0x1200, CRUPHOE = 0, HORIZONDUAL = 0, HORIZONACT = 0,
                      HORIZON32 = 0, RAMBO = 1, GENMODFIX = 0 \<rparr>
         (new_device (filled 0) (filled 0) (filled 0))))
   \<and> m_rambo_mode (cruwrites [(0, 0x121e, 1), (0, 0x121e, 1)]
      (device_reset \<lparr> CRUHOR = 0x1200, CRUPHOE = 0, HORIZONDUAL = 0, HORIZONACT = 0,
                      HORIZON32 = 0, RAMBO = 1, GENMODFIX = 0 \<rparr>
         (new_device (filled 0) (filled 0) (filled 0))))"
  by (simp add: device_reset_def new_device_def cruwrite_def cruwrite_switch_def
      cruwrite_split_def cru_bit_def)

text \<open>
  C4. For a CRU write whose offset matches the Horizon or the Phoenix CRU base, with a size
  setting of 0 to 3: in split mode the split page bit \<open>0x0200 << size\<close> is set after
  the write if and only if, in TI mode, the access used the Phoenix CRU base and, in Geneve
  mode, the CRU bit number is greater than 7. With split mode off the drive selection does
  nothing: the write is the switch over the bit number alone.
\<close>

theorem split_drive_selection:
  assumes "offset AND 0xff00 = m_cru_horizon d \<or> offset AND 0xff00 = m_cru_phoenix d"
    and "hsize \<le> 3"
  shows "(m_split_mode d \<and> m_timode d \<longrightarrow>
            (m_page (cruwrite hsize d offset data) AND push_bit hsize 0x0200 \<noteq> 0)
            = (offset AND 0xff00 = m_cru_phoenix d))
       \<and> (m_split_mode d \<and> \<not> m_timode d \<longrightarrow>
            (m_page (cruwrite hsize d offset data) AND push_bit hsize 0x0200 \<noteq> 0)
            = (7 < cru_bit offset))
       \<and> (\<not> m_split_mode d \<longrightarrow>
            cruwrite hsize d offset data = cruwrite_switch hsize (cru_bit offset) data d)"
proof -
  have eq: "cruwrite hsize d offset data =
      cruwrite_split hsize offset (cru_bit offset) (cruwrite_switch hsize (cru_bit offset) data d)"
    using assms(1) by (simp add: cruwrite_def)
  have on: "(m_page (cruwrite hsize d offset data) AND push_bit hsize 0x0200 \<noteq> 0) =
         (if m_timode d then offset AND 0xff00 = m_cru_phoenix d else 7 < cru_bit offset)"
    if "m_split_mode d"
    unfolding eq
    using cruwrite_split_test [OF assms(2), of "cruwrite_switch hsize (cru_bit offset) data d"
        offset "cru_bit offset"] that
    by (simp only: cruwrite_switch_frame)
  have off: "cruwrite hsize d offset data = cruwrite_switch hsize (cru_bit offset) data d"
    if "\<not> m_split_mode d"
    unfolding eq using that by (simp add: cruwrite_split_def cruwrite_switch_frame)
  from on off show ?thesis by simp
qed

text \<open>
  A 4 MiB card (split page bit 0x0400). Geneve mode at base 1400: bit 9 selects the upper
  drive, bit 3 the lower one, clearing the bit. TI mode with the Phoenix base at 1400: the
  access through 1400 selects the upper drive. Split mode off: the switch alone.
\<close>

theorem split_drive_selection_witness:
  "(m_page (cruwrite 1
      ((new_device (filled 0) (filled 0) (filled 0))
         \<lparr> m_cru_horizon := 0x1400, m_split_mode := True \<rparr>) 0x1412 1)
    AND push_bit 1 0x0200 \<noteq> 0)
   \<and> \<not> (m_page (cruwrite 1
      ((new_device (filled 0) (filled 0) (filled 0))
         \<lparr> m_page := 0x0400, m_cru_horizon := 0x1400, m_split_mode := True \<rparr>) 0x1406 1)
    AND push_bit 1 0x0200 \<noteq> 0)
   \<and> (m_page (cruwrite 1
      ((new_device (filled 0) (filled 0) (filled 0))
         \<lparr> m_cru_horizon := 0x1000, m_cru_phoenix := 0x1400,
           m_timode := True, m_split_mode := True \<rparr>) 0x1406 1)
    AND push_bit 1 0x0200 \<noteq> 0)
   \<and> cruwrite 1
      ((new_device (filled 0) (filled 0) (filled 0))\<lparr> m_cru_horizon := 0x1400 \<rparr>) 0x1412 1
     = cruwrite_switch 1 9 1
      ((new_device (filled 0) (filled 0) (filled 0))\<lparr> m_cru_horizon := 0x1400 \<rparr>)"
  using split_drive_selection
    [of "0x1412" "(new_device (filled 0) (filled 0) (filled 0))
         \<lparr> m_cru_horizon := 0x1400, m_split_mode := True \<rparr>" 1 1]
    split_drive_selection
    [of "0x1406" "(new_device (filled 0) (filled 0) (filled 0))
         \<lparr> m_page := 0x0400, m_cru_horizon := 0x1400, m_split_mode := True \<rparr>" 1 1]
    split_drive_selection
    [of "0x1406" "(new_device (filled 0) (filled 0) (filled 0))
         \<lparr> m_cru_horizon := 0x1000, m_cru_phoenix := 0x1400,
           m_timode := True, m_split_mode := True \<rparr>" 1 1]
    split_drive_selection
    [of "0x1412" "(new_device (filled 0) (filled 0) (filled 0))\<lparr> m_cru_horizon := 0x1400 \<rparr>" 1 1]
  by (simp add: new_device_def cru_bit_def)

text \<open>
  C8. From the reset state, where \<open>m_page\<close> is 0, every sequence of CRU writes made
  under size settings 0 to 3 (the settings of the port HORIZONSIZE) leaves \<open>m_page\<close>
  non-negative and strictly below 0x2000, so that for every offset both NVRAM indices of
  \<open>readz\<close> and \<open>write\<close>, \<open>(m_page << 11) | (offset & 0x07ff)\<close> and
  \<open>((m_page & 0xfffc) << 11) | (offset & 0x1fff)\<close>, lie below MAXSIZE, the 16 MiB of the
  NVRAM region.
\<close>

theorem page_register_bound:
  assumes "list_all (\<lambda>c. fst c \<le> 3) calls"
  shows "0 \<le> sint (m_page (cruwrites calls (device_reset ports d)))
       \<and> sint (m_page (cruwrites calls (device_reset ports d))) < 0x2000
       \<and> unat (push_bit 11 (m_page (cruwrites calls (device_reset ports d)))
               OR (offset AND 0x07ff)) < MAXSIZE
       \<and> unat (push_bit 11 (m_page (cruwrites calls (device_reset ports d)) AND 0xfffc)
               OR (offset AND 0x1fff)) < MAXSIZE"
proof -
  have "m_page (device_reset ports d) < 0x2000" by (simp add: device_reset_def)
  with assms have below: "m_page (cruwrites calls (device_reset ports d)) < 0x2000"
    by (rule cruwrites_page)
  then have tb: "take_bit 13 (m_page (cruwrites calls (device_reset ports d)))
      = m_page (cruwrites calls (device_reset ports d))"
    by (simp only: page_below_iff)
  have h: "unat (push_bit 11 (m_page (cruwrites calls (device_reset ports d)))
               OR (offset AND 0x07ff)) < MAXSIZE"
    unfolding MAXSIZE_def using tb by (rule horizon_index_bound)
  have r: "unat (push_bit 11 (m_page (cruwrites calls (device_reset ports d)) AND 0xfffc)
               OR (offset AND 0x1fff)) < MAXSIZE"
    unfolding MAXSIZE_def using tb by (rule rambo_index_bound)
  from sint_page [OF below] h r show ?thesis by (intro conjI) simp_all
qed

text \<open>
  A 16 MiB card at CRU base 1200 after writing 1 to the bits 13, 1 and 2 (page 0x1003),
  read at 5fff.
\<close>

theorem page_register_bound_witness:
  "0 \<le> sint (m_page (cruwrites [(3, 0x121a, 1), (3, 0x1202, 1), (3, 0x1204, 1)]
       (device_reset \<lparr> CRUHOR = 0x1200, CRUPHOE = 0, HORIZONDUAL = 0, HORIZONACT = 0,
                       HORIZON32 = 0, RAMBO = 1, GENMODFIX = 0 \<rparr>
          (new_device (filled 0) (filled 0) (filled 0)))))
   \<and> sint (m_page (cruwrites [(3, 0x121a, 1), (3, 0x1202, 1), (3, 0x1204, 1)]
       (device_reset \<lparr> CRUHOR = 0x1200, CRUPHOE = 0, HORIZONDUAL = 0, HORIZONACT = 0,
                       HORIZON32 = 0, RAMBO = 1, GENMODFIX = 0 \<rparr>
          (new_device (filled 0) (filled 0) (filled 0))))) < 0x2000
   \<and> unat (push_bit 11 (m_page (cruwrites [(3, 0x121a, 1), (3, 0x1202, 1), (3, 0x1204, 1)]
       (device_reset \<lparr> CRUHOR = 0x1200, CRUPHOE = 0, HORIZONDUAL = 0, HORIZONACT = 0,
                       HORIZON32 = 0, RAMBO = 1, GENMODFIX = 0 \<rparr>
          (new_device (filled 0) (filled 0) (filled 0))))) OR (0x5fff AND 0x07ff)) < MAXSIZE"
  using page_register_bound
    [of "[(3, 0x121a, 1), (3, 0x1202, 1), (3, 0x1204, 1)]"
        "\<lparr> CRUHOR = 0x1200, CRUPHOE = 0, HORIZONDUAL = 0, HORIZONACT = 0,
           HORIZON32 = 0, RAMBO = 1, GENMODFIX = 0 \<rparr>"
        "new_device (filled 0) (filled 0) (filled 0)" "0x5fff"]
  by simp

section \<open>NVRAM persistence\<close>

text \<open>
  C5. For every size setting 0 to 3, reading back with \<open>nvram_read\<close> the file that
  \<open>nvram_write\<close> wrote under the same setting restores the first
  \<open>2 MiB * 2^size\<close> bytes of NVRAM and all 8 KiB of the ROS to their values at the time
  of writing, whatever the device held before the read.
\<close>

theorem nvram_round_trip:
  assumes "hsize \<le> 3"
  shows "(i < 2097152 * 2 ^ hsize \<longrightarrow>
            m_nvram (nvram_read hsize (nvram_write hsize d) d0) i = m_nvram d i)
       \<and> (j < 8192 \<longrightarrow>
            m_ros (nvram_read hsize (nvram_write hsize d) d0) j = m_ros d j)"
proof -
  have len: "ROSSIZE \<le> length (nvram_write hsize d)"
    "length (nvram_write hsize d) \<le> MAXSIZE + ROSSIZE"
    using nvram_size_le [OF assms] by (simp_all add: nvram_write_length)
  have "m_nvram (nvram_read hsize (nvram_write hsize d) d0) i = m_nvram d i"
    if "i < nvram_size hsize"
    using that by (simp add: nvram_read_long(1) [OF len] nvram_write_length nvram_write_nth_nvram)
  moreover have "m_ros (nvram_read hsize (nvram_write hsize d) d0) j = m_ros d j"
    if "j < ROSSIZE"
    using that by (simp add: nvram_read_long(2) [OF len] nvram_write_length nvram_write_nth_ros)
  ultimately show ?thesis
    by (simp add: nvram_size_def ROSSIZE_def)
qed

text \<open>The last NVRAM byte of a 4 MiB card and the last ROS byte come back.\<close>

theorem nvram_round_trip_witness:
  "m_nvram (nvram_read 1 (nvram_write 1 (new_device (filled 1) (filled 2) (filled 3)))
             (new_device (filled 0) (filled 0xCD) (filled 0xCD))) 4194303 = 2
   \<and> m_ros (nvram_read 1 (nvram_write 1 (new_device (filled 1) (filled 2) (filled 3)))
             (new_device (filled 0) (filled 0xCD) (filled 0xCD))) 8191 = 3"
  using nvram_round_trip [of 1 4194303 "new_device (filled 1) (filled 2) (filled 3)"
      "new_device (filled 0) (filled 0xCD) (filled 0xCD)" 8191]
  by (simp add: new_device_def filled_def)

text \<open>
  C6, as the code has it. \<open>nvram_write\<close> produces a file of exactly
  \<open>2 MiB * 2^size + 8192\<close> bytes: the first \<open>2 MiB * 2^size\<close> bytes of NVRAM followed
  by the 8 KiB ROS. \<open>nvram_read\<close> looks at no more than the first MAXSIZE + ROSSIZE
  bytes of the file. Of a file of at least 8192 and at most MAXSIZE + ROSSIZE bytes it
  takes the last 8192 bytes as ROS and the rest as NVRAM, and the NVRAM bytes between the
  end of that rest and \<open>2 MiB * 2^size\<close> are zero. Of a file shorter than 8192 bytes
  it copies nothing: the first \<open>2 MiB * 2^size\<close> bytes of NVRAM and the ROS are zero.
  Either way the NVRAM bytes from \<open>2 MiB * 2^size\<close> on that the file does not cover
  keep the values they had: the zero-fill spans the configured size, not the 16 MiB region.
\<close>

theorem nvram_file_layout:
  "length (nvram_write hsize d) = 2097152 * 2 ^ hsize + 8192
   \<and> nvram_write hsize d
       = map (m_nvram d) [0..<nvram_size hsize] @ map (m_ros d) [0..<ROSSIZE]
   \<and> nvram_read hsize file d = nvram_read hsize (take (MAXSIZE + ROSSIZE) file) d
   \<and> (8192 \<le> length file \<and> length file \<le> MAXSIZE + ROSSIZE \<longrightarrow>
        m_nvram (nvram_read hsize file d) i =
          (if i < length file - 8192 then file ! i
           else if i < 2097152 * 2 ^ hsize then 0 else m_nvram d i)
        \<and> (j < 8192 \<longrightarrow>
             m_ros (nvram_read hsize file d) j = file ! (length file - 8192 + j)))
   \<and> (length file < 8192 \<longrightarrow>
        m_nvram (nvram_read hsize file d) i =
          (if i < 2097152 * 2 ^ hsize then 0 else m_nvram d i)
        \<and> (j < 8192 \<longrightarrow> m_ros (nvram_read hsize file d) j = 0))"
proof -
  have len: "length (nvram_write hsize d) = 2097152 * 2 ^ hsize + 8192"
    by (simp add: nvram_write_length nvram_size_def ROSSIZE_def)
  have cut: "nvram_read hsize file d = nvram_read hsize (take (MAXSIZE + ROSSIZE) file) d"
    by (simp only: nvram_read_def file_read_take)
  have long: "m_nvram (nvram_read hsize file d) i =
          (if i < length file - 8192 then file ! i
           else if i < 2097152 * 2 ^ hsize then 0 else m_nvram d i)
        \<and> (j < 8192 \<longrightarrow>
             m_ros (nvram_read hsize file d) j = file ! (length file - 8192 + j))"
    if "8192 \<le> length file" "length file \<le> MAXSIZE + ROSSIZE"
  proof -
    from that have l: "ROSSIZE \<le> length file" "length file \<le> MAXSIZE + ROSSIZE"
      by (simp_all add: ROSSIZE_def)
    show ?thesis
      unfolding nvram_read_long [OF l] by (simp add: ROSSIZE_def nvram_size_def)
  qed
  have short: "m_nvram (nvram_read hsize file d) i =
          (if i < 2097152 * 2 ^ hsize then 0 else m_nvram d i)
        \<and> (j < 8192 \<longrightarrow> m_ros (nvram_read hsize file d) j = 0)"
    if "length file < 8192"
  proof -
    from that have l: "length file < ROSSIZE" by (simp add: ROSSIZE_def)
    show ?thesis
      unfolding nvram_read_short [OF l] by (simp add: memset_def ROSSIZE_def nvram_size_def)
  qed
  from len nvram_write_layout cut long short show ?thesis by blast
qed

text \<open>
  A file of 8192 sevens and 8192 nines read on a 2 MiB card: the nines are the ROS, the
  sevens the start of NVRAM, and NVRAM is zero after them. A file of three bytes leaves the
  ROS zero.
\<close>

theorem nvram_file_layout_witness:
  "m_ros (nvram_read 0 (replicate 8192 7 @ replicate 8192 9)
            (new_device (filled 0) (filled 0xCD) (filled 0xCD))) 5 = 9
   \<and> m_nvram (nvram_read 0 (replicate 8192 7 @ replicate 8192 9)
            (new_device (filled 0) (filled 0xCD) (filled 0xCD))) 5 = 7
   \<and> m_nvram (nvram_read 0 (replicate 8192 7 @ replicate 8192 9)
            (new_device (filled 0) (filled 0xCD) (filled 0xCD))) 8192 = 0
   \<and> m_ros (nvram_read 0 [1, 2, 3]
            (new_device (filled 0) (filled 0xCD) (filled 0xCD))) 2 = 0"
proof -
  note reads = nvram_file_layout [THEN conjunct2, THEN conjunct2, THEN conjunct2]
  show ?thesis
    using reads [of "replicate 8192 7 @ replicate 8192 9" 0
        "new_device (filled 0) (filled 0xCD) (filled 0xCD)" 5 5]
      reads [of "replicate 8192 7 @ replicate 8192 9" 0
        "new_device (filled 0) (filled 0xCD) (filled 0xCD)" 8192 5]
      reads [of "[1, 2, 3]" 0 "new_device (filled 0) (filled 0xCD) (filled 0xCD)" 5 2]
    by (simp add: MAXSIZE_def ROSSIZE_def nth_append)
qed

text \<open>
  C6 as stated fails twice. An empty file is shorter than 8192 bytes, yet on a 2 MiB card
  whose NVRAM region holds 0xCD the byte at index 2097152, inside the 16 MiB region, is
  still 0xCD after \<open>nvram_read\<close>: the region is not left all zero. And of a file of
  MAXSIZE + ROSSIZE zero bytes followed by a single 1, the last byte is 1 while the last
  ROS byte read is 0: the ROS is not the last 8192 bytes of a file that long.
\<close>

theorem nvram_read_counterexample:
  "length ([] :: uint8_t list) < 8192
   \<and> 2097152 < MAXSIZE
   \<and> m_nvram (nvram_read 0 [] (new_device (filled 0) (filled 0xCD) (filled 0))) 2097152 = 0xCD
   \<and> last (replicate 16785408 0 @ [1 :: uint8_t]) = 1
   \<and> m_ros (nvram_read 3 (replicate 16785408 0 @ [1])
              (new_device (filled 0) (filled 0xCD) (filled 0))) 8191 = 0"
  by (simp add: MAXSIZE_def nvram_read_def file_read_def Let_def memset_def memcpy_def
      nvram_size_def new_device_def filled_def ROSSIZE_def nth_append)

section \<open>The skeleton terminal driver\<close>

text \<open>
  C7. For every screen, bitmap and clip rectangle, \<open>qvt103_state::screen_update\<close>
  returns 0 and leaves the bitmap as it was.
\<close>

theorem screen_update_renders_nothing:
  "screen_update screen bitmap cliprect = (0, bitmap)"
  by (simp add: screen_update_def)

end
